theory Spec2Isabelle
  imports Main "HOL-Library.Word"
begin

section \<open>Results of Go calls\<close>

text \<open>
  A Go function returning \<open>error\<close> either returns nil, returns an error value, or
  panics. The errors of this program are built with \<open>errors.New\<close> and \<open>fmt.Errorf\<close>
  only, so an error is modelled by its message. A panic is a separate outcome: it is
  not a return value and unwinds the caller.
\<close>

datatype 'a res = OK 'a | Err string | Panic string

section \<open>Package models: the task model\<close>

type_synonym TaskStatus = string
type_synonym TaskType = string

definition TaskStatusPending :: TaskStatus where "TaskStatusPending = ''pending''"
definition TaskStatusRunning :: TaskStatus where "TaskStatusRunning = ''running''"
definition TaskStatusCompleted :: TaskStatus where "TaskStatusCompleted = ''completed''"
definition TaskStatusFailed :: TaskStatus where "TaskStatusFailed = ''failed''"

definition TaskTypeDocker :: TaskType where "TaskTypeDocker = ''docker''"
definition TaskTypeCommand :: TaskType where "TaskTypeCommand = ''command''"
definition TaskTypeLLM :: TaskType where "TaskTypeLLM = ''llm''"
definition TaskTypeFederatedLearning :: TaskType where
  "TaskTypeFederatedLearning = ''federated_learning''"

text \<open>
  \<open>uuid.UUID\<close> is an array of 16 bytes and \<open>uuid.Nil\<close> is the all-zero one.
  \<open>time.Time\<close> is an instant counted from its zero value, for which alone
  \<open>IsZero\<close> holds. A \<open>float64\<close> is carried as its 64 bits; no function here
  computes with it.
\<close>

type_synonym uuid = "128 word"
type_synonym time = int
type_synonym float64 = "64 word"

definition uuid_Nil :: uuid where "uuid_Nil = 0"

definition IsZero :: "time \<Rightarrow> bool" where "IsZero t = (t = 0)"

record ResourceConfig =
  Memory :: string
  CPUShares :: "64 word"
  Timeout :: string

record TaskConfig =
  FileURL :: string
  Env :: "(string \<times> string) list"
  Resources :: ResourceConfig
  DockerImageURL :: string
  ImageName :: string

text \<open>
  \<open>TaskConfig.Validate\<close>: a Go \<open>switch\<close> does not fall through, so the three empty
  cases leave the switch and reach the final \<open>return nil\<close>.
\<close>

definition TaskConfig_Validate :: "TaskConfig \<Rightarrow> TaskType \<Rightarrow> unit res" where
  "TaskConfig_Validate c taskType =
     (if taskType = TaskTypeDocker then
        (if ImageName c = '''' then Err ''image name is required for Docker tasks''
         else OK ())
      else if taskType = TaskTypeCommand then OK ()
      else if taskType = TaskTypeLLM then OK ()
      else if taskType = TaskTypeFederatedLearning then OK ()
      else Err (''unsupported task type: '' @ taskType))"

text \<open>
  Modelled from the spec: the type \<open>EnvironmentConfig\<close> is declared outside the
  listed sources. \<open>Task.Validate\<close> reads its \<open>Type\<close> field only (the spec's
  "declared kind"), here \<open>EnvType\<close>; the rest of the descriptor is kept as raw text.
\<close>

record EnvironmentConfig =
  EnvType :: string
  EnvConfig :: string

record Task =
  ID :: uuid
  Title :: string
  Description :: string
  Type :: TaskType
  Status :: TaskStatus
  Config :: string
  Environment :: "EnvironmentConfig option"
  Reward :: float64
  CreatorAddress :: string
  CreatorDeviceID :: string
  RunnerID :: string
  Nonce :: string
  TaskCreatedAt :: time
  UpdatedAt :: time
  CompletedAt :: "time option"

text \<open>
  \<open>Task.Validate\<close>. The call \<open>json.Unmarshal(t.Config, &config)\<close> belongs to the
  standard library; it is the parameter \<open>unmarshal\<close>, giving the decoder's error
  message or the decoded configuration.
\<close>

definition Task_Validate :: "(string \<Rightarrow> string + TaskConfig) \<Rightarrow> Task \<Rightarrow> unit res" where
  "Task_Validate unmarshal t =
     (if Title t = '''' then Err ''title is required''
      else if Type t = '''' then Err ''task type is required''
      else
        (case unmarshal (Config t) of
           Inl e \<Rightarrow> Err (''failed to unmarshal task config: '' @ e)
         | Inr config \<Rightarrow>
             (case TaskConfig_Validate config (Type t) of
                Err e \<Rightarrow> Err e
              | Panic p \<Rightarrow> Panic p
              | OK _ \<Rightarrow>
                  (if Type t = TaskTypeDocker \<and>
                      (case Environment t of
                         None \<Rightarrow> True
                       | Some ec \<Rightarrow> EnvType ec \<noteq> ''docker'')
                   then Err ''docker environment configuration is required for docker tasks''
                   else OK ()))))"

section \<open>Package runner: the task client\<close>

text \<open>
  Modelled from the spec: the type \<open>TaskResult\<close> is declared outside the listed
  sources. The client reads and writes its fields \<open>TaskID\<close>, \<open>CreatedAt\<close> and
  \<open>RunnerAddress\<close>; every other field (the spec's execution-specific payload) is
  the component \<open>Payload\<close>, of an arbitrary type.
\<close>

record 'p TaskResult =
  TaskID :: uuid
  RunnerAddress :: string
  CreatedAt :: time
  Payload :: 'p

record HTTPTaskClient =
  baseURL :: string

definition NewHTTPTaskClient :: "string \<Rightarrow> HTTPTaskClient" where
  "NewHTTPTaskClient b = \<lparr>baseURL = b\<rparr>"

subsection \<open>The outside world\<close>

text \<open>
  A request as it is handed to the HTTP library: \<open>ReqBody\<close> is None for a nil
  body, \<open>ClientTimeout\<close> is the timeout in seconds of the \<open>http.Client\<close> used
  (None for the default client, which has none).
\<close>

record request =
  Method :: string
  URL :: string
  Header :: "(string \<times> string) list"
  ReqBody :: "string option"
  ClientTimeout :: "nat option"

record response =
  StatusCode :: int
  Body :: string

text \<open>
  The world is the list of requests handed to the HTTP library so far, oldest first,
  and the state \<open>ext\<close> of everything outside the process (the server, the clock, the
  device-identity store).
\<close>

record 'x world =
  sent :: "request list"
  ext :: 'x

text \<open>
  The libraries the client calls, as functions: \<open>VerifyDeviceID\<close> of the
  device-identity manager, \<open>time.Now\<close>, \<open>uuid.Parse\<close> and \<open>UUID.String\<close>,
  \<open>json.Marshal\<close> of a result, the JSON decoders of a task list and of an error
  reply (giving its \<open>Error\<close> field), the error of \<open>http.NewRequest\<close> if any, and
  the round trip of a request, which gives a transport error or a response and
  changes the outside state. A decoded task list is a slice of pointers: an entry is
  None where the pointer is nil (a JSON \<open>null\<close>).
\<close>

record ('x, 'p) env =
  VerifyDeviceID :: "'x \<Rightarrow> string + string"
  time_Now :: "'x \<Rightarrow> time"
  uuid_Parse :: "string \<Rightarrow> string + uuid"
  uuid_String :: "uuid \<Rightarrow> string"
  json_Marshal :: "'p TaskResult \<Rightarrow> string + string"
  json_Decode_tasks :: "string \<Rightarrow> string + Task option list"
  json_Decode_error :: "string \<Rightarrow> string + string"
  http_NewRequest :: "string \<Rightarrow> string \<Rightarrow> string option"
  http_RoundTrip :: "'x \<Rightarrow> request \<Rightarrow> (string + response) \<times> 'x"

text \<open>Handing a request to the HTTP library records it and asks the outside.\<close>

definition http_Do :: "('x, 'p) env \<Rightarrow> request \<Rightarrow> 'x world \<Rightarrow> (string + response) \<times> 'x world" where
  "http_Do E req w =
     (case http_RoundTrip E (ext w) req of
        (r, x') \<Rightarrow> (r, w\<lparr>sent := sent w @ [req], ext := x'\<rparr>))"

subsection \<open>Strings\<close>

definition HasSuffix :: "string \<Rightarrow> string \<Rightarrow> bool" where
  "HasSuffix s suf = (length suf \<le> length s \<and> drop (length s - length suf) s = suf)"

definition TrimSuffix :: "string \<Rightarrow> string \<Rightarrow> string" where
  "TrimSuffix s suf = (if HasSuffix s suf then take (length s - length suf) s else s)"

text \<open>The verb \<open>%d\<close> of \<open>fmt\<close>: decimal digits, with a minus sign below zero.\<close>

fun digits :: "nat \<Rightarrow> string" where
  "digits n =
     (if n < 10 then [char_of (48 + n)]
      else digits (n div 10) @ [char_of (48 + n mod 10)])"

declare digits.simps [simp del]

definition fmt_d :: "int \<Rightarrow> string" where
  "fmt_d i = (if i < 0 then CHR ''-'' # digits (nat (- i)) else digits (nat i))"

definition nil_dereference :: string where
  "nil_dereference = ''runtime error: invalid memory address or nil pointer dereference''"

subsection \<open>Requests of the operations\<close>

definition api_root :: "HTTPTaskClient \<Rightarrow> string" where
  "api_root c = TrimSuffix (baseURL c) ''/api''"

definition available_url :: "HTTPTaskClient \<Rightarrow> string" where
  "available_url c = api_root c @ ''/api/v1/runners/tasks/available''"

definition start_url :: "HTTPTaskClient \<Rightarrow> string \<Rightarrow> string" where
  "start_url c taskID = api_root c @ ''/api/v1/runners/tasks/'' @ taskID @ ''/start''"

definition complete_url :: "HTTPTaskClient \<Rightarrow> string \<Rightarrow> string" where
  "complete_url c taskID = api_root c @ ''/api/v1/runners/tasks/'' @ taskID @ ''/complete''"

definition result_url :: "HTTPTaskClient \<Rightarrow> string \<Rightarrow> string" where
  "result_url c taskID = api_root c @ ''/api/v1/runners/tasks/'' @ taskID @ ''/result''"

definition available_request :: "HTTPTaskClient \<Rightarrow> request" where
  "available_request c =
     \<lparr>Method = ''GET'', URL = available_url c, Header = [], ReqBody = None,
      ClientTimeout = None\<rparr>"

definition start_request :: "HTTPTaskClient \<Rightarrow> string \<Rightarrow> string \<Rightarrow> request" where
  "start_request c taskID deviceID =
     \<lparr>Method = ''POST'', URL = start_url c taskID,
      Header = [(''X-Device-ID'', deviceID)], ReqBody = None,
      ClientTimeout = Some 10\<rparr>"

definition complete_request :: "HTTPTaskClient \<Rightarrow> string \<Rightarrow> request" where
  "complete_request c taskID =
     \<lparr>Method = ''POST'', URL = complete_url c taskID,
      Header = [(''Content-Type'', ''application/json'')], ReqBody = None,
      ClientTimeout = None\<rparr>"

definition result_request :: "HTTPTaskClient \<Rightarrow> string \<Rightarrow> string \<Rightarrow> string \<Rightarrow> request" where
  "result_request c taskID deviceID body =
     \<lparr>Method = ''POST'', URL = result_url c taskID,
      Header = [(''Content-Type'', ''application/json''), (''X-Device-ID'', deviceID)],
      ReqBody = Some body, ClientTimeout = None\<rparr>"

subsection \<open>The operations\<close>

text \<open>
  Every operation takes the world and returns the world it leaves. An operation
  given a pointer to a result also returns what that pointer holds afterwards.
\<close>

definition GetAvailableTasks ::
  "HTTPTaskClient \<Rightarrow> ('x, 'p) env \<Rightarrow> 'x world \<Rightarrow> Task option list res \<times> 'x world" where
  "GetAvailableTasks c E w =
     (case http_Do E (available_request c) w of
        (Inl e, w') \<Rightarrow>
          (Err (''HTTP GET failed for '' @ available_url c @ '': '' @ e), w')
      | (Inr resp, w') \<Rightarrow>
          (if StatusCode resp \<noteq> 200
           then (Err (''unexpected status code: '' @ fmt_d (StatusCode resp)), w')
           else
             (case json_Decode_tasks E (Body resp) of
                Inl e \<Rightarrow> (Err (''failed to decode response: '' @ e), w')
              | Inr tasks \<Rightarrow> (OK tasks, w'))))"

definition StartTask ::
  "HTTPTaskClient \<Rightarrow> ('x, 'p) env \<Rightarrow> string \<Rightarrow> 'x world \<Rightarrow> unit res \<times> 'x world" where
  "StartTask c E taskID w =
     (case VerifyDeviceID E (ext w) of
        Inl e \<Rightarrow> (Err (''failed to get device ID: '' @ e), w)
      | Inr deviceID \<Rightarrow>
          (case http_NewRequest E ''POST'' (start_url c taskID) of
             Some e \<Rightarrow> (Err (''failed to create request: '' @ e), w)
           | None \<Rightarrow>
               (case http_Do E (start_request c taskID deviceID) w of
                  (Inl e, w') \<Rightarrow>
                    (Err (''HTTP POST failed for '' @ start_url c taskID @ '': '' @ e), w')
                | (Inr resp, w') \<Rightarrow>
                    (if StatusCode resp = 200 then (OK (), w')
                     else if StatusCode resp = 409
                       then (Err (''task unavailable: '' @ Body resp), w')
                     else if StatusCode resp = 400
                       then (Err (''bad request: '' @ Body resp), w')
                     else if StatusCode resp = 404
                       then (Err ''task not found'', w')
                     else (Err (''unexpected status code: '' @ fmt_d (StatusCode resp)
                                 @ '', body: '' @ Body resp), w')))))"

definition CompleteTask ::
  "HTTPTaskClient \<Rightarrow> ('x, 'p) env \<Rightarrow> string \<Rightarrow> 'x world \<Rightarrow> unit res \<times> 'x world" where
  "CompleteTask c E taskID w =
     (case http_Do E (complete_request c taskID) w of
        (Inl e, w') \<Rightarrow>
          (Err (''HTTP POST failed for '' @ complete_url c taskID @ '': '' @ e), w')
      | (Inr resp, w') \<Rightarrow>
          (if StatusCode resp \<noteq> 200
           then (Err (''unexpected status code: '' @ fmt_d (StatusCode resp)), w')
           else (OK (), w')))"

text \<open>
  \<open>SaveTaskResult\<close>. Reading \<open>result.TaskID\<close> through a nil pointer panics, and so
  does \<open>uuid.MustParse\<close> on a string that \<open>uuid.Parse\<close> rejects. The three
  assignments write through the pointer, so the caller sees them whatever happens
  afterwards.
\<close>

definition MustParse :: "('x, 'p) env \<Rightarrow> string \<Rightarrow> uuid res" where
  "MustParse E s =
     (case uuid_Parse E s of
        Inl e \<Rightarrow> Panic (''uuid: Parse('' @ s @ ''): '' @ e)
      | Inr u \<Rightarrow> OK u)"

definition SaveTaskResult ::
  "HTTPTaskClient \<Rightarrow> ('x, 'p) env \<Rightarrow> string \<Rightarrow> 'p TaskResult option \<Rightarrow> 'x world
     \<Rightarrow> unit res \<times> 'p TaskResult option \<times> 'x world" where
  "SaveTaskResult c E taskID result w =
     (case VerifyDeviceID E (ext w) of
        Inl e \<Rightarrow> (Err (''failed to get device ID: '' @ e), result, w)
      | Inr deviceID \<Rightarrow>
          (case result of
             None \<Rightarrow> (Panic nil_dereference, result, w)
           | Some r0 \<Rightarrow>
               (case (if TaskID r0 = uuid_Nil then MustParse E taskID else OK (TaskID r0)) of
                  Panic p \<Rightarrow> (Panic p, Some r0, w)
                | Err e \<Rightarrow> (Err e, Some r0, w)
                | OK u \<Rightarrow>
                    (let r1 = r0\<lparr>TaskID := u\<rparr>;
                         r2 = (if IsZero (CreatedAt r1)
                               then r1\<lparr>CreatedAt := time_Now E (ext w)\<rparr> else r1);
                         r3 = (if RunnerAddress r2 = ''''
                               then r2\<lparr>RunnerAddress := deviceID\<rparr> else r2)
                     in
                       (case json_Marshal E r3 of
                          Inl e \<Rightarrow> (Err (''failed to marshal result: '' @ e), Some r3, w)
                        | Inr body \<Rightarrow>
                            (case http_NewRequest E ''POST'' (result_url c taskID) of
                               Some e \<Rightarrow>
                                 (Err (''failed to create request: '' @ e), Some r3, w)
                             | None \<Rightarrow>
                                 (case http_Do E (result_request c taskID deviceID body) w of
                                    (Inl e, w') \<Rightarrow>
                                      (Err (''HTTP POST failed for '' @ result_url c taskID
                                             @ '': '' @ e), Some r3, w')
                                  | (Inr resp, w') \<Rightarrow>
                                      (if StatusCode resp \<noteq> 200 then
                                         (case json_Decode_error E (Body resp) of
                                            Inr msg \<Rightarrow>
                                              (if msg \<noteq> ''''
                                               then (Err (''server error: '' @ msg), Some r3, w')
                                               else (Err (''unexpected status code: ''
                                                      @ fmt_d (StatusCode resp)), Some r3, w'))
                                          | Inl _ \<Rightarrow>
                                              (Err (''unexpected status code: ''
                                                 @ fmt_d (StatusCode resp)), Some r3, w'))
                                       else (OK (), Some r3, w')))))))))"

text \<open>
  \<open>FetchTask\<close>. \<open>task.ID\<close> is read through the first pointer of the list, which
  panics when that pointer is nil.
\<close>

definition FetchTask ::
  "HTTPTaskClient \<Rightarrow> ('x, 'p) env \<Rightarrow> 'x world \<Rightarrow> Task res \<times> 'x world" where
  "FetchTask c E w =
     (case GetAvailableTasks c E w of
        (Err e, w1) \<Rightarrow> (Err e, w1)
      | (Panic p, w1) \<Rightarrow> (Panic p, w1)
      | (OK tasks, w1) \<Rightarrow>
          (case tasks of
             [] \<Rightarrow> (Err ''no tasks available'', w1)
           | None # _ \<Rightarrow> (Panic nil_dereference, w1)
           | Some task # _ \<Rightarrow>
               (case StartTask c E (uuid_String E (ID task)) w1 of
                  (Err e, w2) \<Rightarrow> (Err e, w2)
                | (Panic p, w2) \<Rightarrow> (Panic p, w2)
                | (OK _, w2) \<Rightarrow> (OK task, w2))))"

definition UpdateTaskStatus ::
  "HTTPTaskClient \<Rightarrow> ('x, 'p) env \<Rightarrow> string \<Rightarrow> TaskStatus \<Rightarrow> 'p TaskResult option
     \<Rightarrow> 'x world \<Rightarrow> unit res \<times> 'p TaskResult option \<times> 'x world" where
  "UpdateTaskStatus c E taskID status result w =
     (if status = TaskStatusRunning then
        (case StartTask c E taskID w of (r, w') \<Rightarrow> (r, result, w'))
      else if status = TaskStatusCompleted \<or> status = TaskStatusFailed then
        (case CompleteTask c E taskID w of
           (Err e, w1) \<Rightarrow> (Err e, result, w1)
         | (Panic p, w1) \<Rightarrow> (Panic p, result, w1)
         | (OK _, w1) \<Rightarrow>
             (case result of
                Some r \<Rightarrow> SaveTaskResult c E taskID result w1
              | None \<Rightarrow> (OK (), result, w1)))
      else (Err (''unsupported status: '' @ status), result, w))"

section \<open>Concrete inputs\<close>

text \<open>
  Values at which the theorems below are evaluated. The stand-ins for the JSON and
  UUID libraries agree with the libraries on the strings used here and make no
  promise elsewhere.
\<close>

definition zero_TaskConfig :: TaskConfig where
  "zero_TaskConfig =
     \<lparr>FileURL = '''', Env = [],
      Resources = \<lparr>Memory = '''', CPUShares = 0, Timeout = ''''\<rparr>,
      DockerImageURL = '''', ImageName = ''''\<rparr>"

definition alpine_config :: TaskConfig where
  "alpine_config = zero_TaskConfig\<lparr>ImageName := ''alpine''\<rparr>"

definition example_unmarshal :: "string \<Rightarrow> string + TaskConfig" where
  \<open>example_unmarshal s =
     (if s = ''{}'' then Inr zero_TaskConfig
      else if s = ''{"image_name":"alpine"}'' then Inr alpine_config
      else Inl ''unexpected end of JSON input'')\<close>

definition zero_Task :: Task where
  "zero_Task =
     \<lparr>ID = 0, Title = '''', Description = '''', Type = '''', Status = '''', Config = '''',
      Environment = None, Reward = 0, CreatorAddress = '''', CreatorDeviceID = '''',
      RunnerID = '''', Nonce = '''', TaskCreatedAt = 0, UpdatedAt = 0,
      CompletedAt = None\<rparr>"

definition command_task :: Task where
  "command_task =
     zero_Task\<lparr>ID := 1, Title := ''build'', Type := TaskTypeCommand,
       Status := TaskStatusPending, Config := ''{}''\<rparr>"

definition docker_task :: Task where
  \<open>docker_task =
     zero_Task\<lparr>ID := 2, Title := ''run'', Type := TaskTypeDocker,
       Status := TaskStatusPending, Config := ''{"image_name":"alpine"}'',
       Environment := Some \<lparr>EnvType = ''docker'', EnvConfig = ''{}''\<rparr>,
       Nonce := ''n-1''\<rparr>\<close>

text \<open>
  A client, and an outside world that answers the requests it is handed from a
  script: the round trip gives the next scripted answer, whatever the request, and a
  connection error once the script is used up.
\<close>

definition example_client :: HTTPTaskClient where
  "example_client = NewHTTPTaskClient ''http://coordinator:8080/api''"

type_synonym script = "(string + response) list"

definition scripted :: "script \<Rightarrow> request \<Rightarrow> (string + response) \<times> script" where
  "scripted x req =
     (case x of [] \<Rightarrow> (Inl ''connection refused'', []) | r # rs \<Rightarrow> (r, rs))"

definition reply :: "int \<Rightarrow> string \<Rightarrow> string + response" where
  "reply code b = Inr \<lparr>StatusCode = code, Body = b\<rparr>"

definition example_id :: string where
  "example_id = ''00000000-0000-0000-0000-000000000001''"

definition example_Parse :: "string \<Rightarrow> string + uuid" where
  "example_Parse s =
     (if s = example_id then Inr 1
      else Inl (''invalid UUID length: '' @ fmt_d (int (length s))))"

definition example_String :: "uuid \<Rightarrow> string" where
  "example_String u =
     (if u = 1 then example_id
      else if u = 2 then ''00000000-0000-0000-0000-000000000002''
      else ''00000000-0000-0000-0000-000000000000'')"

definition example_Marshal :: "string TaskResult \<Rightarrow> string + string" where
  "example_Marshal r =
     Inr (example_String (TaskID r) @ '';'' @ RunnerAddress r @ '';''
          @ fmt_d (CreatedAt r) @ '';'' @ Payload r)"

definition command_task_json :: string where
  \<open>command_task_json =
     ''[{"id":"00000000-0000-0000-0000-000000000001","title":"build","type":"command","status":"pending","config":{}}]''\<close>

definition example_Decode_tasks :: "string \<Rightarrow> string + Task option list" where
  "example_Decode_tasks s =
     (if s = ''[]'' then Inr []
      else if s = ''[null]'' then Inr [None]
      else if s = command_task_json then Inr [Some command_task]
      else Inl ''unexpected end of JSON input'')"

definition example_Decode_error :: "string \<Rightarrow> string + string" where
  \<open>example_Decode_error s =
     (if s = ''{"error":"task is not running"}'' then Inr ''task is not running''
      else if s = ''{}'' then Inr ''''
      else Inl ''unexpected end of JSON input'')\<close>

definition example_env :: "string + string \<Rightarrow> (script, string) env" where
  "example_env device =
     \<lparr>VerifyDeviceID = (\<lambda>_. device), time_Now = (\<lambda>_. 63900000000),
      uuid_Parse = example_Parse, uuid_String = example_String,
      json_Marshal = example_Marshal, json_Decode_tasks = example_Decode_tasks,
      json_Decode_error = example_Decode_error,
      http_NewRequest = (\<lambda>m u. None), http_RoundTrip = scripted\<rparr>"

definition example_world :: "script \<Rightarrow> script world" where
  "example_world x = \<lparr>sent = [], ext = x\<rparr>"

definition blank_result :: "string TaskResult" where
  "blank_result = \<lparr>TaskID = 0, RunnerAddress = '''', CreatedAt = 0, Payload = ''exit 0''\<rparr>"

definition filled_result :: "string TaskResult" where
  "filled_result =
     \<lparr>TaskID = 2, RunnerAddress = ''0xabc'', CreatedAt = 63800000000, Payload = ''exit 1''\<rparr>"

text \<open>
  An environment whose \<open>http.NewRequest\<close> parses the URL as the library does at this
  one address: the path id \<open>%zz\<close> is not a valid percent escape, so the URL of the
  result request is refused.
\<close>

definition example_NewRequest :: "string \<Rightarrow> string \<Rightarrow> string option" where
  \<open>example_NewRequest m u =
     (if u = ''http://coordinator:8080/api/v1/runners/tasks/%zz/result''
      then Some ''parse "http://coordinator:8080/api/v1/runners/tasks/%zz/result": invalid URL escape "%zz"''
      else None)\<close>

definition parsing_env :: "(script, string) env" where
  "parsing_env = (example_env (Inr ''runner-1''))\<lparr>http_NewRequest := example_NewRequest\<rparr>"

section \<open>Properties of the task model\<close>

lemma TaskType_distinct:
  "TaskTypeDocker \<noteq> TaskTypeCommand" "TaskTypeDocker \<noteq> TaskTypeLLM"
  "TaskTypeDocker \<noteq> TaskTypeFederatedLearning" "TaskTypeDocker \<noteq> ''''"
  by (simp_all add: TaskTypeDocker_def TaskTypeCommand_def TaskTypeLLM_def
      TaskTypeFederatedLearning_def)

text \<open>
  Claim C1. For every task type \<open>T\<close>, \<open>TaskConfig.Validate(T)\<close> succeeds if and only
  if \<open>T\<close> is one of docker, command, llm, federated_learning and, when \<open>T\<close> is
  docker, the image name of the configuration is not empty; for any \<open>T\<close> outside
  the enumeration it fails with the validation error "unsupported task type".
\<close>

theorem TaskConfig_Validate_iff:
  "((TaskConfig_Validate c T = OK ()) \<longleftrightarrow>
      (T \<in> {TaskTypeDocker, TaskTypeCommand, TaskTypeLLM, TaskTypeFederatedLearning}
       \<and> (T = TaskTypeDocker \<longrightarrow> ImageName c \<noteq> '''')))
   \<and> (T \<notin> {TaskTypeDocker, TaskTypeCommand, TaskTypeLLM, TaskTypeFederatedLearning}
        \<longrightarrow> TaskConfig_Validate c T = Err (''unsupported task type: '' @ T))"
  by (simp add: TaskConfig_Validate_def)

theorem TaskConfig_Validate_iff_witness:
  "TaskConfig_Validate alpine_config TaskTypeDocker = OK ()
   \<and> TaskConfig_Validate zero_TaskConfig TaskTypeDocker \<noteq> OK ()
   \<and> TaskConfig_Validate zero_TaskConfig TaskTypeLLM = OK ()
   \<and> ''gpu'' \<notin> {TaskTypeDocker, TaskTypeCommand, TaskTypeLLM, TaskTypeFederatedLearning}
   \<and> TaskConfig_Validate zero_TaskConfig ''gpu'' = Err ''unsupported task type: gpu''"
  using TaskConfig_Validate_iff [of alpine_config TaskTypeDocker]
    TaskConfig_Validate_iff [of zero_TaskConfig TaskTypeDocker]
    TaskConfig_Validate_iff [of zero_TaskConfig TaskTypeLLM]
    TaskConfig_Validate_iff [of zero_TaskConfig "''gpu''"]
  by (simp add: alpine_config_def zero_TaskConfig_def TaskTypeDocker_def
      TaskTypeCommand_def TaskTypeLLM_def TaskTypeFederatedLearning_def)

lemma Task_Validate_title:
  "Title t = '''' \<Longrightarrow> Task_Validate u t = Err ''title is required''"
  by (simp add: Task_Validate_def)

lemma Task_Validate_type:
  "Title t \<noteq> '''' \<Longrightarrow> Type t = '''' \<Longrightarrow> Task_Validate u t = Err ''task type is required''"
  by (simp add: Task_Validate_def)

lemma Task_Validate_unmarshal:
  "Title t \<noteq> '''' \<Longrightarrow> Type t \<noteq> '''' \<Longrightarrow> u (Config t) = Inl e
   \<Longrightarrow> Task_Validate u t = Err (''failed to unmarshal task config: '' @ e)"
  by (simp add: Task_Validate_def)

lemma Task_Validate_config:
  "Title t \<noteq> '''' \<Longrightarrow> Type t \<noteq> '''' \<Longrightarrow> u (Config t) = Inr cfg
   \<Longrightarrow> TaskConfig_Validate cfg (Type t) = Err e \<Longrightarrow> Task_Validate u t = Err e"
  by (simp add: Task_Validate_def)

lemma Task_Validate_environment:
  "Title t \<noteq> '''' \<Longrightarrow> Type t \<noteq> '''' \<Longrightarrow> u (Config t) = Inr cfg
   \<Longrightarrow> TaskConfig_Validate cfg (Type t) = OK ()
   \<Longrightarrow> Task_Validate u t =
       (if Type t = TaskTypeDocker \<and>
           (Environment t = None \<or> (\<exists>ec. Environment t = Some ec \<and> EnvType ec \<noteq> ''docker''))
        then Err ''docker environment configuration is required for docker tasks''
        else OK ())"
  by (simp add: Task_Validate_def split: option.splits)

lemma TaskConfig_Validate_no_Panic: "TaskConfig_Validate cfg T \<noteq> Panic p"
  by (simp add: TaskConfig_Validate_def)

lemma Task_Validate_docker_environment:
  assumes "Type t = TaskTypeDocker"
    and "Environment t = None \<or> (\<exists>ec. Environment t = Some ec \<and> EnvType ec \<noteq> ''docker'')"
  shows "Task_Validate u t \<noteq> OK ()"
proof (cases "Title t = ''''")
  case True
  then show ?thesis by (simp add: Task_Validate_title)
next
  case False
  note title = this
  have ty: "Type t \<noteq> ''''" using assms(1) TaskType_distinct(4) by simp
  show ?thesis
  proof (cases "u (Config t)")
    case (Inl e)
    then show ?thesis using title ty by (simp add: Task_Validate_unmarshal)
  next
    case (Inr cfg)
    show ?thesis
    proof (cases "TaskConfig_Validate cfg (Type t)")
      case (OK x)
      then show ?thesis
        using title ty Inr assms by (simp add: Task_Validate_environment)
    next
      case (Err e)
      then show ?thesis using title ty Inr by (simp add: Task_Validate_config)
    next
      case (Panic p)
      then show ?thesis by (simp add: TaskConfig_Validate_no_Panic)
    qed
  qed
qed

text \<open>
  Claim C2. \<open>Task.Validate()\<close> runs its checks in a fixed order: empty title, empty
  type, configuration that cannot be decoded, validation of the configuration for the
  task's type, and for a docker task a missing environment or one whose kind is not
  "docker". It returns the first failure, so the later checks have no say: a task
  with an empty title fails with the title error whatever its other fields and
  whatever the decoder does, and a docker task with a missing or non-docker
  environment fails whatever its configuration holds, an image name included.
\<close>

theorem Task_Validate_order:
  "(Title t = '''' \<longrightarrow> Task_Validate u t = Err ''title is required'')
   \<and> (Title t \<noteq> '''' \<and> Type t = ''''
        \<longrightarrow> Task_Validate u t = Err ''task type is required'')
   \<and> (Title t \<noteq> '''' \<and> Type t \<noteq> '''' \<and> u (Config t) = Inl e
        \<longrightarrow> Task_Validate u t = Err (''failed to unmarshal task config: '' @ e))
   \<and> (Title t \<noteq> '''' \<and> Type t \<noteq> '''' \<and> u (Config t) = Inr cfg
       \<and> TaskConfig_Validate cfg (Type t) = Err e'
        \<longrightarrow> Task_Validate u t = Err e')
   \<and> (Title t \<noteq> '''' \<and> Type t \<noteq> '''' \<and> u (Config t) = Inr cfg
       \<and> TaskConfig_Validate cfg (Type t) = OK ()
        \<longrightarrow> Task_Validate u t =
            (if Type t = TaskTypeDocker \<and>
                (Environment t = None
                 \<or> (\<exists>ec. Environment t = Some ec \<and> EnvType ec \<noteq> ''docker''))
             then Err ''docker environment configuration is required for docker tasks''
             else OK ()))
   \<and> (Type t = TaskTypeDocker
       \<and> (Environment t = None
          \<or> (\<exists>ec. Environment t = Some ec \<and> EnvType ec \<noteq> ''docker''))
        \<longrightarrow> Task_Validate u t \<noteq> OK ())"
  using Task_Validate_title [of t u] Task_Validate_type [of t u]
    Task_Validate_unmarshal [of t u e] Task_Validate_config [of t u cfg e']
    Task_Validate_environment [of t u cfg] Task_Validate_docker_environment [of t u]
  by blast

theorem Task_Validate_order_witness:
  \<open>Task_Validate (\<lambda>s. Inr alpine_config) (docker_task\<lparr>Title := ''''\<rparr>)
     = Err ''title is required''
   \<and> Task_Validate example_unmarshal (docker_task\<lparr>Type := ''''\<rparr>)
     = Err ''task type is required''
   \<and> Task_Validate example_unmarshal (docker_task\<lparr>Config := ''''\<rparr>)
     = Err ''failed to unmarshal task config: unexpected end of JSON input''
   \<and> Task_Validate example_unmarshal (docker_task\<lparr>Config := ''{}''\<rparr>)
     = Err ''image name is required for Docker tasks''
   \<and> Task_Validate example_unmarshal docker_task = OK ()
   \<and> Task_Validate example_unmarshal (docker_task\<lparr>Environment := None\<rparr>)
     = Err ''docker environment configuration is required for docker tasks''
   \<and> ImageName alpine_config \<noteq> ''''
   \<and> Task_Validate example_unmarshal
       (docker_task\<lparr>Environment := Some \<lparr>EnvType = ''vm'', EnvConfig = ''''\<rparr>\<rparr>) \<noteq> OK ()\<close>
  using
    Task_Validate_order [of \<open>docker_task\<lparr>Title := ''''\<rparr>\<close> \<open>\<lambda>s. Inr alpine_config\<close>]
    Task_Validate_order [of \<open>docker_task\<lparr>Type := ''''\<rparr>\<close> example_unmarshal]
    Task_Validate_order [of \<open>docker_task\<lparr>Config := ''''\<rparr>\<close> example_unmarshal
      \<open>''unexpected end of JSON input''\<close>]
    Task_Validate_order [of \<open>docker_task\<lparr>Config := ''{}''\<rparr>\<close> example_unmarshal _
      zero_TaskConfig \<open>''image name is required for Docker tasks''\<close>]
    Task_Validate_order [of docker_task example_unmarshal _ alpine_config]
    Task_Validate_order [of \<open>docker_task\<lparr>Environment := None\<rparr>\<close> example_unmarshal _
      alpine_config]
    Task_Validate_order [of
      \<open>docker_task\<lparr>Environment := Some \<lparr>EnvType = ''vm'', EnvConfig = ''''\<rparr>\<rparr>\<close>
      example_unmarshal]
  by (simp add: docker_task_def zero_Task_def example_unmarshal_def alpine_config_def
      zero_TaskConfig_def TaskConfig_Validate_def TaskTypeDocker_def TaskStatusPending_def)

text \<open>
  Claim C8, as the code has it. \<open>Task.Validate()\<close> never reads the nonce: its verdict
  is the same whatever the \<open>Nonce\<close> field holds, so a task with an empty nonce is
  accepted exactly when the same task with a nonce is.
\<close>

theorem Task_Validate_ignores_Nonce:
  "Task_Validate u (t\<lparr>Nonce := n\<rparr>) = Task_Validate u t"
  by (auto simp add: Task_Validate_def split: sum.split)

theorem Task_Validate_ignores_Nonce_witness:
  "Task_Validate example_unmarshal (docker_task\<lparr>Nonce := ''''\<rparr>) = OK ()"
  using Task_Validate_ignores_Nonce [of example_unmarshal "''''" docker_task]
  by (simp add: Task_Validate_def docker_task_def zero_Task_def example_unmarshal_def
      alpine_config_def zero_TaskConfig_def TaskConfig_Validate_def TaskTypeDocker_def
      TaskStatusPending_def)

text \<open>
  The claim C8 as the specification states it (every task with an empty nonce is
  rejected) fails: this command task has an empty nonce and is accepted.
\<close>

theorem Task_Validate_empty_Nonce_accepted:
  "Nonce command_task = '''' \<and> Task_Validate example_unmarshal command_task = OK ()"
  by (simp add: Task_Validate_def command_task_def zero_Task_def example_unmarshal_def
      zero_TaskConfig_def TaskConfig_Validate_def TaskTypeDocker_def TaskTypeCommand_def
      TaskStatusPending_def)

section \<open>Properties of the task client\<close>

lemma TaskStatus_distinct:
  "TaskStatusRunning \<noteq> TaskStatusCompleted" "TaskStatusRunning \<noteq> TaskStatusFailed"
  "TaskStatusCompleted \<noteq> TaskStatusFailed" "TaskStatusPending \<noteq> TaskStatusRunning"
  "TaskStatusPending \<noteq> TaskStatusCompleted" "TaskStatusPending \<noteq> TaskStatusFailed"
  by (simp_all add: TaskStatusRunning_def TaskStatusCompleted_def TaskStatusFailed_def
      TaskStatusPending_def)

lemma http_Do_eq:
  "http_Do E req w =
     (fst (http_RoundTrip E (ext w) req),
      w\<lparr>sent := sent w @ [req], ext := snd (http_RoundTrip E (ext w) req)\<rparr>)"
  by (simp add: http_Do_def split: prod.split)

lemma CompleteTask_sent:
  "sent (snd (CompleteTask c E taskID w)) = sent w @ [complete_request c taskID]"
  by (simp add: CompleteTask_def http_Do_eq split: sum.split)

lemma CompleteTask_no_Panic: "fst (CompleteTask c E taskID w) \<noteq> Panic p"
  by (simp add: CompleteTask_def http_Do_eq split: sum.split)

lemma GetAvailableTasks_sent:
  "sent (snd (GetAvailableTasks c E w)) = sent w @ [available_request c]"
  by (simp add: GetAvailableTasks_def http_Do_eq split: sum.split)

lemma StartTask_OK_sent:
  "fst (StartTask c E taskID w) = OK ()
   \<Longrightarrow> \<exists>d. VerifyDeviceID E (ext w) = Inr d
          \<and> sent (snd (StartTask c E taskID w)) = sent w @ [start_request c taskID d]"
  by (simp add: StartTask_def http_Do_eq split: sum.splits option.splits)

lemma SaveTaskResult_device_failure:
  "VerifyDeviceID E (ext w) = Inl e
   \<Longrightarrow> SaveTaskResult c E taskID result w
       = (Err (''failed to get device ID: '' @ e), result, w)"
  by (simp add: SaveTaskResult_def)

text \<open>The result as the three assignments leave it, and what is done with it.\<close>

lemma SaveTaskResult_filled:
  assumes dev: "VerifyDeviceID E (ext w) = Inr d"
    and parse: "TaskID r = uuid_Nil \<longrightarrow> uuid_Parse E taskID = Inr u"
    and r': "r' = r\<lparr>TaskID := (if TaskID r = uuid_Nil then u else TaskID r),
                CreatedAt := (if IsZero (CreatedAt r) then time_Now E (ext w) else CreatedAt r),
                RunnerAddress := (if RunnerAddress r = [] then d else RunnerAddress r)\<rparr>"
  shows "SaveTaskResult c E taskID (Some r) w =
     (case json_Marshal E r' of
        Inl e \<Rightarrow> (Err (''failed to marshal result: '' @ e), Some r', w)
      | Inr body \<Rightarrow>
          (case http_NewRequest E ''POST'' (result_url c taskID) of
             Some e \<Rightarrow> (Err (''failed to create request: '' @ e), Some r', w)
           | None \<Rightarrow>
               (case http_Do E (result_request c taskID d body) w of
                  (Inl e, w') \<Rightarrow>
                    (Err (''HTTP POST failed for '' @ result_url c taskID @ '': '' @ e),
                     Some r', w')
                | (Inr resp, w') \<Rightarrow>
                    (if StatusCode resp \<noteq> 200 then
                       (case json_Decode_error E (Body resp) of
                          Inr msg \<Rightarrow>
                            (if msg \<noteq> [] then (Err (''server error: '' @ msg), Some r', w')
                             else (Err (''unexpected status code: ''
                                    @ fmt_d (StatusCode resp)), Some r', w'))
                        | Inl _ \<Rightarrow>
                            (Err (''unexpected status code: ''
                               @ fmt_d (StatusCode resp)), Some r', w'))
                     else (OK (), Some r', w')))))"
proof -
  let ?u = "if TaskID r = uuid_Nil then u else TaskID r"
  have p: "(if TaskID r = uuid_Nil then MustParse E taskID else OK (TaskID r)) = OK ?u"
    using parse by (simp add: MustParse_def)
  have fill: "(let r1 = r\<lparr>TaskID := ?u\<rparr>;
                   r2 = (if IsZero (CreatedAt r1)
                         then r1\<lparr>CreatedAt := time_Now E (ext w)\<rparr> else r1);
                   r3 = (if RunnerAddress r2 = [] then r2\<lparr>RunnerAddress := d\<rparr> else r2)
               in F r3) = F r'" for F
    by (cases "IsZero (CreatedAt r)"; cases "RunnerAddress r = []") (simp_all add: r' Let_def)
  show ?thesis
    unfolding SaveTaskResult_def
    by (simp only: dev p sum.case option.case res.case fill)
qed

lemma SaveTaskResult_MustParse_panic:
  "VerifyDeviceID E (ext w) = Inr d \<Longrightarrow> TaskID r = uuid_Nil \<Longrightarrow> uuid_Parse E taskID = Inl e
   \<Longrightarrow> SaveTaskResult c E taskID (Some r) w
       = (Panic (''uuid: Parse('' @ taskID @ ''): '' @ e), Some r, w)"
  by (simp add: SaveTaskResult_def MustParse_def)

lemma SaveTaskResult_nil:
  "VerifyDeviceID E (ext w) = Inr d
   \<Longrightarrow> SaveTaskResult c E taskID None w = (Panic nil_dereference, None, w)"
  by (simp add: SaveTaskResult_def)

lemma SaveTaskResult_outcomes:
  "(\<exists>e. VerifyDeviceID E (ext w) = Inl e)
   \<or> (\<exists>d. VerifyDeviceID E (ext w) = Inr d \<and> result = None)
   \<or> (\<exists>d r e. VerifyDeviceID E (ext w) = Inr d \<and> result = Some r
          \<and> TaskID r = uuid_Nil \<and> uuid_Parse E taskID = Inl e)
   \<or> (\<exists>d r u. VerifyDeviceID E (ext w) = Inr d \<and> result = Some r
          \<and> (TaskID r = uuid_Nil \<longrightarrow> uuid_Parse E taskID = Inr u))"
proof (cases "VerifyDeviceID E (ext w)")
  case (Inl e)
  then show ?thesis by simp
next
  case (Inr d)
  show ?thesis
  proof (cases result)
    case None
    then show ?thesis using Inr by simp
  next
    case (Some r)
    show ?thesis
    proof (cases "uuid_Parse E taskID")
      case (Inl e)
      then show ?thesis using Inr Some by (cases "TaskID r = uuid_Nil") simp_all
    next
      case parsed: (Inr u)
      then show ?thesis using Inr Some by simp
    qed
  qed
qed

lemma SaveTaskResult_filled_result:
  assumes "VerifyDeviceID E (ext w) = Inr d"
    and "TaskID r = uuid_Nil \<longrightarrow> uuid_Parse E taskID = Inr u"
    and "r' = r\<lparr>TaskID := (if TaskID r = uuid_Nil then u else TaskID r),
                CreatedAt := (if IsZero (CreatedAt r) then time_Now E (ext w) else CreatedAt r),
                RunnerAddress := (if RunnerAddress r = [] then d else RunnerAddress r)\<rparr>"
  shows "fst (snd (SaveTaskResult c E taskID (Some r) w)) = Some r'"
  unfolding SaveTaskResult_filled [OF assms]
  by (simp split: sum.split option.split prod.split)

lemma SaveTaskResult_filled_marshal_error:
  assumes "VerifyDeviceID E (ext w) = Inr d"
    and "TaskID r = uuid_Nil \<longrightarrow> uuid_Parse E taskID = Inr u"
    and "r' = r\<lparr>TaskID := (if TaskID r = uuid_Nil then u else TaskID r),
                CreatedAt := (if IsZero (CreatedAt r) then time_Now E (ext w) else CreatedAt r),
                RunnerAddress := (if RunnerAddress r = [] then d else RunnerAddress r)\<rparr>"
    and "json_Marshal E r' = Inl e"
  shows "SaveTaskResult c E taskID (Some r) w
           = (Err (''failed to marshal result: '' @ e), Some r', w)"
  unfolding SaveTaskResult_filled [OF assms(1-3)]
  by (simp add: assms(4))

lemma SaveTaskResult_filled_sent:
  assumes "VerifyDeviceID E (ext w) = Inr d"
    and "TaskID r = uuid_Nil \<longrightarrow> uuid_Parse E taskID = Inr u"
    and "r' = r\<lparr>TaskID := (if TaskID r = uuid_Nil then u else TaskID r),
                CreatedAt := (if IsZero (CreatedAt r) then time_Now E (ext w) else CreatedAt r),
                RunnerAddress := (if RunnerAddress r = [] then d else RunnerAddress r)\<rparr>"
    and "json_Marshal E r' = Inr b"
    and "http_NewRequest E ''POST'' (result_url c taskID) = None"
  shows "sent (snd (snd (SaveTaskResult c E taskID (Some r) w)))
           = sent w @ [result_request c taskID d b]"
  unfolding SaveTaskResult_filled [OF assms(1-3)]
  by (simp add: assms(4,5) http_Do_eq split: sum.split)

lemma SaveTaskResult_filled_OK:
  assumes "VerifyDeviceID E (ext w) = Inr d"
    and "TaskID r = uuid_Nil \<longrightarrow> uuid_Parse E taskID = Inr u"
    and "r' = r\<lparr>TaskID := (if TaskID r = uuid_Nil then u else TaskID r),
                CreatedAt := (if IsZero (CreatedAt r) then time_Now E (ext w) else CreatedAt r),
                RunnerAddress := (if RunnerAddress r = [] then d else RunnerAddress r)\<rparr>"
    and "fst (SaveTaskResult c E taskID (Some r) w) = OK ()"
  shows "\<exists>b. json_Marshal E r' = Inr b
            \<and> sent (snd (snd (SaveTaskResult c E taskID (Some r) w)))
                = sent w @ [result_request c taskID d b]"
proof (cases "json_Marshal E r'")
  case (Inl e)
  then show ?thesis
    using assms(4) SaveTaskResult_filled_marshal_error [OF assms(1-3) Inl, of c] by simp
next
  case (Inr b)
  show ?thesis
  proof (cases "http_NewRequest E ''POST'' (result_url c taskID)")
    case None
    then show ?thesis using SaveTaskResult_filled_sent [OF assms(1-3) Inr None] Inr by simp
  next
    case (Some e)
    then show ?thesis
      using assms(4) unfolding SaveTaskResult_filled [OF assms(1-3)] by (simp add: Inr)
  qed
qed

lemma SaveTaskResult_filled_errors:
  assumes dev: "VerifyDeviceID E (ext w) = Inr d"
    and parse: "TaskID r = uuid_Nil \<longrightarrow> uuid_Parse E taskID = Inr u"
    and err: "fst (SaveTaskResult c E taskID (Some r) w) = Err m"
  shows "(\<exists>e. m = ''failed to marshal result: '' @ e)
     \<or> (\<exists>e. m = ''failed to create request: '' @ e)
     \<or> (\<exists>e. m = ''HTTP POST failed for '' @ result_url c taskID @ '': '' @ e)
     \<or> (\<exists>e. e \<noteq> [] \<and> m = ''server error: '' @ e)
     \<or> (\<exists>n. n \<noteq> 200 \<and> m = ''unexpected status code: '' @ fmt_d n)"
proof -
  define r' where "r' = r\<lparr>TaskID := (if TaskID r = uuid_Nil then u else TaskID r),
      CreatedAt := (if IsZero (CreatedAt r) then time_Now E (ext w) else CreatedAt r),
      RunnerAddress := (if RunnerAddress r = [] then d else RunnerAddress r)\<rparr>"
  note eq = SaveTaskResult_filled [OF dev parse r'_def, of c]
  show ?thesis
  proof (cases "json_Marshal E r'")
    case (Inl e)
    then have "m = ''failed to marshal result: '' @ e"
      using err unfolding eq by simp
    then have "\<exists>e. m = ''failed to marshal result: '' @ e" by (rule exI)
    then show ?thesis by (rule disjI1)
  next
    case body: (Inr b)
    show ?thesis
    proof (cases "http_NewRequest E ''POST'' (result_url c taskID)")
      case (Some e)
      then have "m = ''failed to create request: '' @ e"
        using err body unfolding eq by simp
      then have "\<exists>e. m = ''failed to create request: '' @ e" by (rule exI)
      then show ?thesis by (rule disjI2 [OF disjI1])
    next
      case None
      show ?thesis
      proof (cases "fst (http_RoundTrip E (ext w) (result_request c taskID d b))")
        case (Inl e)
        then have "m = ''HTTP POST failed for '' @ result_url c taskID @ '': '' @ e"
          using err body None unfolding eq by (simp add: http_Do_eq)
        then have "\<exists>e. m = ''HTTP POST failed for '' @ result_url c taskID @ '': '' @ e"
          by (rule exI)
        then show ?thesis by (rule disjI2 [OF disjI2 [OF disjI1]])
      next
        case (Inr resp)
        have code: "StatusCode resp \<noteq> 200"
        proof
          assume "StatusCode resp = 200"
          then have "fst (SaveTaskResult c E taskID (Some r) w) = OK ()"
            using body None Inr unfolding eq by (simp add: http_Do_eq)
          with err show False by simp
        qed
        have generic: ?thesis if "m = ''unexpected status code: '' @ fmt_d (StatusCode resp)"
        proof -
          from code that
          have "StatusCode resp \<noteq> 200
                \<and> m = ''unexpected status code: '' @ fmt_d (StatusCode resp)" ..
          then have "\<exists>n. n \<noteq> 200 \<and> m = ''unexpected status code: '' @ fmt_d n"
            by (rule exI)
          then show ?thesis by (rule disjI2 [OF disjI2 [OF disjI2 [OF disjI2]]])
        qed
        show ?thesis
        proof (cases "json_Decode_error E (Body resp)")
          case decode: (Inl e)
          then have "m = ''unexpected status code: '' @ fmt_d (StatusCode resp)"
            using err body None Inr code unfolding eq by (simp add: http_Do_eq)
          then show ?thesis by (rule generic)
        next
          case decode: (Inr msg)
          show ?thesis
          proof (cases "msg = []")
            case True
            then have "m = ''unexpected status code: '' @ fmt_d (StatusCode resp)"
              using err body None Inr code decode unfolding eq by (simp add: http_Do_eq)
            then show ?thesis by (rule generic)
          next
            case False
            then have "m = ''server error: '' @ msg"
              using err body None Inr code decode unfolding eq by (simp add: http_Do_eq)
            with False have "msg \<noteq> [] \<and> m = ''server error: '' @ msg" ..
            then have "\<exists>e. e \<noteq> [] \<and> m = ''server error: '' @ e" by (rule exI)
            then show ?thesis by (rule disjI2 [OF disjI2 [OF disjI2 [OF disjI1]]])
          qed
        qed
      qed
    qed
  qed
qed

lemma SaveTaskResult_filled_sent_cases:
  assumes "VerifyDeviceID E (ext w) = Inr d"
    and "TaskID r = uuid_Nil \<longrightarrow> uuid_Parse E taskID = Inr u"
  shows "sent (snd (snd (SaveTaskResult c E taskID (Some r) w))) = sent w
     \<or> (\<exists>b. sent (snd (snd (SaveTaskResult c E taskID (Some r) w)))
              = sent w @ [result_request c taskID d b])"
proof -
  define r' where "r' = r\<lparr>TaskID := (if TaskID r = uuid_Nil then u else TaskID r),
      CreatedAt := (if IsZero (CreatedAt r) then time_Now E (ext w) else CreatedAt r),
      RunnerAddress := (if RunnerAddress r = [] then d else RunnerAddress r)\<rparr>"
  show ?thesis
    unfolding SaveTaskResult_filled [OF assms r'_def]
    by (auto simp add: http_Do_eq split: sum.split option.split)
qed

lemma SaveTaskResult_sent_cases:
  "sent (snd (snd (SaveTaskResult c E taskID result w))) = sent w
   \<or> (\<exists>d b. sent (snd (snd (SaveTaskResult c E taskID result w)))
              = sent w @ [result_request c taskID d b])"
proof -
  from SaveTaskResult_outcomes [of E w result taskID]
  consider (device) e where "VerifyDeviceID E (ext w) = Inl e"
    | (nil) d where "VerifyDeviceID E (ext w) = Inr d" "result = None"
    | (panic) d r e where "VerifyDeviceID E (ext w) = Inr d" "result = Some r"
        "TaskID r = uuid_Nil" "uuid_Parse E taskID = Inl e"
    | (filled) d r u where "VerifyDeviceID E (ext w) = Inr d" "result = Some r"
        "TaskID r = uuid_Nil \<longrightarrow> uuid_Parse E taskID = Inr u"
    by blast
  then show ?thesis
  proof cases
    case device
    then show ?thesis by (simp add: SaveTaskResult_device_failure)
  next
    case nil
    then show ?thesis by (simp add: SaveTaskResult_nil)
  next
    case panic
    then show ?thesis by (simp add: SaveTaskResult_MustParse_panic)
  next
    case filled
    then show ?thesis
      using SaveTaskResult_filled_sent_cases [OF filled(1,3), of c] by blast
  qed
qed

lemma SaveTaskResult_OK:
  assumes ok: "fst (SaveTaskResult c E taskID result w) = OK ()"
  shows "\<exists>d r' b. fst (snd (SaveTaskResult c E taskID result w)) = Some r'
           \<and> json_Marshal E r' = Inr b
           \<and> sent (snd (snd (SaveTaskResult c E taskID result w)))
               = sent w @ [result_request c taskID d b]"
proof -
  from SaveTaskResult_outcomes [of E w result taskID]
  consider (device) e where "VerifyDeviceID E (ext w) = Inl e"
    | (nil) d where "VerifyDeviceID E (ext w) = Inr d" "result = None"
    | (panic) d r e where "VerifyDeviceID E (ext w) = Inr d" "result = Some r"
        "TaskID r = uuid_Nil" "uuid_Parse E taskID = Inl e"
    | (filled) d r u where "VerifyDeviceID E (ext w) = Inr d" "result = Some r"
        "TaskID r = uuid_Nil \<longrightarrow> uuid_Parse E taskID = Inr u"
    by blast
  then show ?thesis
  proof cases
    case device
    then show ?thesis using ok by (simp add: SaveTaskResult_device_failure)
  next
    case nil
    then show ?thesis using ok by (simp add: SaveTaskResult_nil)
  next
    case panic
    then show ?thesis using ok by (simp add: SaveTaskResult_MustParse_panic)
  next
    case filled
    define r' where "r' = r\<lparr>TaskID := (if TaskID r = uuid_Nil then u else TaskID r),
      CreatedAt := (if IsZero (CreatedAt r) then time_Now E (ext w) else CreatedAt r),
      RunnerAddress := (if RunnerAddress r = [] then d else RunnerAddress r)\<rparr>"
    have ok': "fst (SaveTaskResult c E taskID (Some r) w) = OK ()"
      using ok filled(2) by simp
    from SaveTaskResult_filled_OK [OF filled(1,3) r'_def ok']
    obtain b where "json_Marshal E r' = Inr b"
      and "sent (snd (snd (SaveTaskResult c E taskID (Some r) w)))
             = sent w @ [result_request c taskID d b]"
      by blast
    moreover have "fst (snd (SaveTaskResult c E taskID (Some r) w)) = Some r'"
      by (rule SaveTaskResult_filled_result [OF filled(1,3) r'_def])
    ultimately show ?thesis using filled(2) by blast
  qed
qed

lemma SaveTaskResult_frame_aux:
  "\<exists>r'. fst (snd (SaveTaskResult c E taskID (Some r) w)) = Some r'
      \<and> Payload r' = Payload r
      \<and> (TaskID r' = TaskID r \<or> TaskID r = uuid_Nil)
      \<and> (CreatedAt r' = CreatedAt r \<or> IsZero (CreatedAt r))
      \<and> (RunnerAddress r' = RunnerAddress r \<or> RunnerAddress r = [])"
proof -
  from SaveTaskResult_outcomes [of E w "Some r" taskID]
  consider (device) e where "VerifyDeviceID E (ext w) = Inl e"
    | (nil) "Some r = None"
    | (panic) d r0 e where "VerifyDeviceID E (ext w) = Inr d" "Some r = Some r0"
        "TaskID r0 = uuid_Nil" "uuid_Parse E taskID = Inl e"
    | (filled0) d r0 u where "VerifyDeviceID E (ext w) = Inr d" "Some r = Some r0"
        "TaskID r0 = uuid_Nil \<longrightarrow> uuid_Parse E taskID = Inr u"
    by blast
  then show ?thesis
  proof cases
    case device
    then show ?thesis by (simp add: SaveTaskResult_device_failure)
  next
    case nil
    then show ?thesis by simp
  next
    case panic
    then show ?thesis by (simp add: SaveTaskResult_MustParse_panic)
  next
    case filled0
    then have filled: "VerifyDeviceID E (ext w) = Inr d"
      "TaskID r = uuid_Nil \<longrightarrow> uuid_Parse E taskID = Inr u"
      by simp_all
    define r' where "r' = r\<lparr>TaskID := (if TaskID r = uuid_Nil then u else TaskID r),
      CreatedAt := (if IsZero (CreatedAt r) then time_Now E (ext w) else CreatedAt r),
      RunnerAddress := (if RunnerAddress r = [] then d else RunnerAddress r)\<rparr>"
    have "fst (snd (SaveTaskResult c E taskID (Some r) w)) = Some r'"
      by (rule SaveTaskResult_filled_result [OF filled r'_def])
    moreover have "Payload r' = Payload r" "TaskID r' = TaskID r \<or> TaskID r = uuid_Nil"
      "CreatedAt r' = CreatedAt r \<or> IsZero (CreatedAt r)"
      "RunnerAddress r' = RunnerAddress r \<or> RunnerAddress r = []"
      by (simp_all add: r'_def)
    ultimately show ?thesis by blast
  qed
qed

lemma UpdateTaskStatus_complete_failed:
  assumes "status = TaskStatusCompleted \<or> status = TaskStatusFailed"
    and "CompleteTask c E taskID w = (Err e, w1)"
  shows "UpdateTaskStatus c E taskID status result w = (Err e, result, w1)"
  using assms TaskStatus_distinct by (auto simp add: UpdateTaskStatus_def)

lemma UpdateTaskStatus_complete_ok:
  assumes "status = TaskStatusCompleted \<or> status = TaskStatusFailed"
    and "CompleteTask c E taskID w = (OK (), w1)"
  shows "UpdateTaskStatus c E taskID status result w =
           (case result of
              None \<Rightarrow> (OK (), None, w1)
            | Some r \<Rightarrow> SaveTaskResult c E taskID (Some r) w1)"
  using assms TaskStatus_distinct
  by (auto simp add: UpdateTaskStatus_def split: option.split)

lemma UpdateTaskStatus_unsupported:
  assumes "status \<notin> {TaskStatusRunning, TaskStatusCompleted, TaskStatusFailed}"
  shows "UpdateTaskStatus c E taskID status result w
           = (Err (''unsupported status: '' @ status), result, w)"
  using assms by (simp add: UpdateTaskStatus_def)

lemma UpdateTaskStatus_terminal_sent:
  assumes terminal: "status = TaskStatusCompleted \<or> status = TaskStatusFailed"
  shows "\<exists>rest. sent (snd (snd (UpdateTaskStatus c E taskID status result w)))
                  = sent w @ complete_request c taskID # rest
          \<and> (rest = [] \<or> (\<exists>d b. rest = [result_request c taskID d b]))
          \<and> (result = None \<longrightarrow> rest = [])
          \<and> (result \<noteq> None \<and> fst (UpdateTaskStatus c E taskID status result w) = OK ()
               \<longrightarrow> rest \<noteq> [])"
proof -
  obtain r1 w1 where ct: "CompleteTask c E taskID w = (r1, w1)"
    by (cases "CompleteTask c E taskID w")
  have w1: "sent w1 = sent w @ [complete_request c taskID]"
    using CompleteTask_sent [of c E taskID w] ct by simp
  show ?thesis
  proof (cases r1)
    case (Err e)
    then have "UpdateTaskStatus c E taskID status result w = (Err e, result, w1)"
      using UpdateTaskStatus_complete_failed [OF terminal] ct by simp
    then show ?thesis using w1 by simp
  next
    case (Panic p)
    then show ?thesis using CompleteTask_no_Panic [of c E taskID w p] ct by simp
  next
    case (OK x)
    then have eq: "UpdateTaskStatus c E taskID status result w =
        (case result of
           None \<Rightarrow> (OK (), None, w1)
         | Some r \<Rightarrow> SaveTaskResult c E taskID (Some r) w1)"
      using UpdateTaskStatus_complete_ok [OF terminal] ct by simp
    show ?thesis
    proof (cases result)
      case None
      then show ?thesis using eq w1 by simp
    next
      case (Some r)
      then have eq': "UpdateTaskStatus c E taskID status result w
          = SaveTaskResult c E taskID result w1"
        using eq by simp
      from SaveTaskResult_sent_cases [of c E taskID result w1]
      show ?thesis
      proof
        assume same: "sent (snd (snd (SaveTaskResult c E taskID result w1))) = sent w1"
        have "fst (SaveTaskResult c E taskID result w1) \<noteq> OK ()"
        proof
          assume "fst (SaveTaskResult c E taskID result w1) = OK ()"
          from SaveTaskResult_OK [OF this] same show False by auto
        qed
        then show ?thesis using same w1 eq' by simp
      next
        assume "\<exists>d b. sent (snd (snd (SaveTaskResult c E taskID result w1)))
                       = sent w1 @ [result_request c taskID d b]"
        then show ?thesis using w1 eq' Some by auto
      qed
    qed
  qed
qed

lemma SaveTaskResult_errors:
  assumes err: "fst (SaveTaskResult c E taskID result w) = Err m"
  shows "(\<exists>e. m = ''failed to get device ID: '' @ e)
     \<or> (\<exists>e. m = ''failed to marshal result: '' @ e)
     \<or> (\<exists>e. m = ''failed to create request: '' @ e)
     \<or> (\<exists>e. m = ''HTTP POST failed for '' @ result_url c taskID @ '': '' @ e)
     \<or> (\<exists>e. e \<noteq> [] \<and> m = ''server error: '' @ e)
     \<or> (\<exists>n. n \<noteq> 200 \<and> m = ''unexpected status code: '' @ fmt_d n)"
proof -
  from SaveTaskResult_outcomes [of E w result taskID]
  consider (device) e where "VerifyDeviceID E (ext w) = Inl e"
    | (nil) d where "VerifyDeviceID E (ext w) = Inr d" "result = None"
    | (panic) d r e where "VerifyDeviceID E (ext w) = Inr d" "result = Some r"
        "TaskID r = uuid_Nil" "uuid_Parse E taskID = Inl e"
    | (filled) d r u where "VerifyDeviceID E (ext w) = Inr d" "result = Some r"
        "TaskID r = uuid_Nil \<longrightarrow> uuid_Parse E taskID = Inr u"
    by blast
  then show ?thesis
  proof cases
    case device
    then have "m = ''failed to get device ID: '' @ e"
      using err by (simp add: SaveTaskResult_device_failure)
    then have "\<exists>e. m = ''failed to get device ID: '' @ e" by (rule exI)
    then show ?thesis by (rule disjI1)
  next
    case nil
    then show ?thesis using err by (simp add: SaveTaskResult_nil)
  next
    case panic
    then show ?thesis using err by (simp add: SaveTaskResult_MustParse_panic)
  next
    case filled
    have "fst (SaveTaskResult c E taskID (Some r) w) = Err m"
      using err filled(2) by simp
    from SaveTaskResult_filled_errors [OF filled(1,3) this]
    show ?thesis by (rule disjI2)
  qed
qed

lemma StartTask_device_failure:
  "VerifyDeviceID E (ext w) = Inl e
   \<Longrightarrow> StartTask c E taskID w = (Err (''failed to get device ID: '' @ e), w)"
  by (simp add: StartTask_def)

lemma StartTask_response:
  assumes "VerifyDeviceID E (ext w) = Inr d"
    and "http_NewRequest E ''POST'' (start_url c taskID) = None"
    and "http_RoundTrip E (ext w) (start_request c taskID d) = (Inr resp, x')"
  shows "StartTask c E taskID w =
     ((if StatusCode resp = 200 then OK ()
       else if StatusCode resp = 409 then Err (''task unavailable: '' @ Body resp)
       else if StatusCode resp = 400 then Err (''bad request: '' @ Body resp)
       else if StatusCode resp = 404 then Err ''task not found''
       else Err (''unexpected status code: '' @ fmt_d (StatusCode resp)
                  @ '', body: '' @ Body resp)),
      w\<lparr>sent := sent w @ [start_request c taskID d], ext := x'\<rparr>)"
  using assms by (simp add: StartTask_def http_Do_def)

lemma StartTask_outcomes_distinct:
  "distinct [OK (), Err (''task unavailable: '' @ b1), Err (''bad request: '' @ b2),
             Err ''task not found'',
             Err (''unexpected status code: '' @ fmt_d n @ '', body: '' @ b3)]"
  by simp

lemma FetchTask_list_error:
  "GetAvailableTasks c E w = (Err e, w1) \<Longrightarrow> FetchTask c E w = (Err e, w1)"
  by (simp add: FetchTask_def)

lemma FetchTask_empty:
  "GetAvailableTasks c E w = (OK [], w1)
   \<Longrightarrow> FetchTask c E w = (Err ''no tasks available'', w1)"
  by (simp add: FetchTask_def)

lemma FetchTask_claimed:
  "GetAvailableTasks c E w = (OK (Some t # ts), w1)
   \<Longrightarrow> StartTask c E (uuid_String E (ID t)) w1 = (OK (), w2)
   \<Longrightarrow> FetchTask c E w = (OK t, w2)"
  by (simp add: FetchTask_def)

lemma FetchTask_claim_error:
  "GetAvailableTasks c E w = (OK (Some t # ts), w1)
   \<Longrightarrow> StartTask c E (uuid_String E (ID t)) w1 = (Err e, w2)
   \<Longrightarrow> FetchTask c E w = (Err e, w2)"
  by (simp add: FetchTask_def)

lemma fmt_d_500: "fmt_d 500 = ''500''"
  by code_simp

text \<open>
  Claim C3. \<open>UpdateTaskStatus(id, status, result)\<close> with status completed or failed
  calls \<open>CompleteTask\<close> first and then, only if the result is not nil and
  \<open>CompleteTask\<close> succeeded, calls \<open>SaveTaskResult\<close>: a failure of \<open>CompleteTask\<close>
  is returned as it is, from the world \<open>CompleteTask\<close> left; after its success the
  call is \<open>SaveTaskResult\<close> from that world for a result, and success for none. The
  requests sent are the complete request followed by at most one result request:
  none for a nil result, one whenever the call succeeds with a result. With a status
  other than running, completed and failed it returns the "unsupported status" error
  and leaves the world and the result as they were: no request is sent.
\<close>

theorem UpdateTaskStatus_dispatch:
  "(status = TaskStatusCompleted \<or> status = TaskStatusFailed \<longrightarrow>
      (\<forall>e w1. CompleteTask c E taskID w = (Err e, w1)
          \<longrightarrow> UpdateTaskStatus c E taskID status result w = (Err e, result, w1))
    \<and> (\<forall>w1. CompleteTask c E taskID w = (OK (), w1)
          \<longrightarrow> UpdateTaskStatus c E taskID status result w =
               (case result of
                  None \<Rightarrow> (OK (), None, w1)
                | Some r \<Rightarrow> SaveTaskResult c E taskID (Some r) w1))
    \<and> (\<exists>rest. sent (snd (snd (UpdateTaskStatus c E taskID status result w)))
                  = sent w @ complete_request c taskID # rest
          \<and> (rest = [] \<or> (\<exists>d b. rest = [result_request c taskID d b]))
          \<and> (result = None \<longrightarrow> rest = [])
          \<and> (result \<noteq> None \<and> fst (UpdateTaskStatus c E taskID status result w) = OK ()
               \<longrightarrow> rest \<noteq> [])))
   \<and> (status \<notin> {TaskStatusRunning, TaskStatusCompleted, TaskStatusFailed} \<longrightarrow>
        UpdateTaskStatus c E taskID status result w
          = (Err (''unsupported status: '' @ status), result, w))"
  using UpdateTaskStatus_complete_failed [of status c E taskID w _ _ result]
    UpdateTaskStatus_complete_ok [of status c E taskID w _ result]
    UpdateTaskStatus_terminal_sent [of status c E taskID result w]
    UpdateTaskStatus_unsupported [of status c E taskID result w]
  by blast

theorem UpdateTaskStatus_dispatch_witness:
  "UpdateTaskStatus example_client (example_env (Inr ''runner-1'')) example_id
       TaskStatusCompleted (Some blank_result)
       (example_world [reply 200 '''', reply 200 ''''])
     = (OK (),
        Some \<lparr>TaskID = 1, RunnerAddress = ''runner-1'', CreatedAt = 63900000000,
              Payload = ''exit 0''\<rparr>,
        \<lparr>sent = [complete_request example_client example_id,
                  result_request example_client example_id ''runner-1''
                    (example_id @ '';runner-1;'' @ fmt_d 63900000000 @ '';exit 0'')],
         ext = []\<rparr>)
   \<and> UpdateTaskStatus example_client (example_env (Inr ''runner-1'')) example_id
       TaskStatusFailed None (example_world [reply 200 '''', reply 200 ''''])
     = (OK (), None,
        \<lparr>sent = [complete_request example_client example_id], ext = [reply 200 '''']\<rparr>)
   \<and> UpdateTaskStatus example_client (example_env (Inr ''runner-1'')) example_id
       TaskStatusCompleted (Some blank_result) (example_world [reply 500 '''', reply 200 ''''])
     = (Err ''unexpected status code: 500'', Some blank_result,
        \<lparr>sent = [complete_request example_client example_id], ext = [reply 200 '''']\<rparr>)
   \<and> TaskStatusPending \<notin> {TaskStatusRunning, TaskStatusCompleted, TaskStatusFailed}
   \<and> UpdateTaskStatus example_client (example_env (Inr ''runner-1'')) example_id
       TaskStatusPending (Some blank_result) (example_world [reply 200 ''''])
     = (Err ''unsupported status: pending'', Some blank_result,
        example_world [reply 200 ''''])"
  using
    UpdateTaskStatus_dispatch [of TaskStatusCompleted example_client
      "example_env (Inr ''runner-1'')" example_id
      "example_world [reply 200 '''', reply 200 '''']" "Some blank_result"]
    UpdateTaskStatus_dispatch [of TaskStatusFailed example_client
      "example_env (Inr ''runner-1'')" example_id
      "example_world [reply 200 '''', reply 200 '''']" None]
    UpdateTaskStatus_dispatch [of TaskStatusCompleted example_client
      "example_env (Inr ''runner-1'')" example_id
      "example_world [reply 500 '''', reply 200 '''']" "Some blank_result"]
    UpdateTaskStatus_dispatch [of TaskStatusPending example_client
      "example_env (Inr ''runner-1'')" example_id
      "example_world [reply 200 '''']" "Some blank_result"]
  by (simp add: UpdateTaskStatus_def CompleteTask_def SaveTaskResult_def MustParse_def http_Do_def uuid_Nil_def IsZero_def
      example_client_def NewHTTPTaskClient_def
      example_env_def example_world_def example_id_def scripted_def reply_def example_Parse_def
      example_String_def example_Marshal_def example_Decode_tasks_def example_Decode_error_def
      blank_result_def TaskStatusPending_def TaskStatusRunning_def TaskStatusCompleted_def
      TaskStatusFailed_def fmt_d_500)

text \<open>
  Claim C4, as the code has it. \<open>FetchTask()\<close> returns the "no tasks available"
  error whenever \<open>GetAvailableTasks\<close> returns an empty list, having sent the list
  request and nothing else (no claim). When the list starts with a task (a pointer
  that is not nil) it claims that task via \<open>StartTask\<close>, with the task's own id, and
  returns the task when the claim succeeds, the requests sent being the list request
  and then the start request of that id. A failure of either sub-call is returned to
  the caller as it is.
\<close>

theorem FetchTask_first_entry:
  "(GetAvailableTasks c E w = (Err e, w1) \<longrightarrow> FetchTask c E w = (Err e, w1))
   \<and> (GetAvailableTasks c E w = (OK [], w1) \<longrightarrow>
        FetchTask c E w = (Err ''no tasks available'', w1)
        \<and> sent w1 = sent w @ [available_request c])
   \<and> (GetAvailableTasks c E w = (OK (Some t # ts), w1) \<longrightarrow>
        (StartTask c E (uuid_String E (ID t)) w1 = (OK (), w2) \<longrightarrow>
           FetchTask c E w = (OK t, w2)
           \<and> (\<exists>d. sent w2 = sent w @ [available_request c,
                                       start_request c (uuid_String E (ID t)) d]))
      \<and> (StartTask c E (uuid_String E (ID t)) w1 = (Err e', w2) \<longrightarrow>
           FetchTask c E w = (Err e', w2)))"
proof -
  have listed: "sent w1 = sent w @ [available_request c]"
    if "GetAvailableTasks c E w = (r, w1)" for r
    using GetAvailableTasks_sent [of c E w] that by simp
  have claimed: "\<exists>d. sent w2 = sent w @ [available_request c,
                                        start_request c (uuid_String E (ID t)) d]"
    if "GetAvailableTasks c E w = (OK (Some t # ts), w1)"
      and "StartTask c E (uuid_String E (ID t)) w1 = (OK (), w2)"
    using StartTask_OK_sent [of c E "uuid_String E (ID t)" w1] listed [OF that(1)] that(2)
    by auto
  show ?thesis
    using FetchTask_list_error [of c E w e w1] FetchTask_empty [of c E w w1]
      FetchTask_claimed [of c E w t ts w1 w2] FetchTask_claim_error [of c E w t ts w1 e' w2]
      listed [of "OK []"] claimed
    by blast
qed

theorem FetchTask_first_entry_witness:
  "FetchTask example_client (example_env (Inr ''runner-1'')) (example_world [reply 200 ''[]''])
     = (Err ''no tasks available'',
        \<lparr>sent = [available_request example_client], ext = []\<rparr>)
   \<and> FetchTask example_client (example_env (Inr ''runner-1''))
        (example_world [reply 200 command_task_json, reply 200 ''''])
     = (OK command_task,
        \<lparr>sent = [available_request example_client,
                  start_request example_client example_id ''runner-1''], ext = []\<rparr>)
   \<and> FetchTask example_client (example_env (Inr ''runner-1''))
        (example_world [reply 200 command_task_json, reply 409 ''claimed''])
     = (Err ''task unavailable: claimed'',
        \<lparr>sent = [available_request example_client,
                  start_request example_client example_id ''runner-1''], ext = []\<rparr>)
   \<and> FetchTask example_client (example_env (Inr ''runner-1'')) (example_world [reply 500 ''''])
     = (Err ''unexpected status code: 500'',
        \<lparr>sent = [available_request example_client], ext = []\<rparr>)"
  using
    FetchTask_first_entry [of example_client "example_env (Inr ''runner-1'')"
      "example_world [reply 200 ''[]'']" _
      "\<lparr>sent = [available_request example_client], ext = []\<rparr>"]
    FetchTask_first_entry [of example_client "example_env (Inr ''runner-1'')"
      "example_world [reply 200 command_task_json, reply 200 '''']" _
      "\<lparr>sent = [available_request example_client], ext = [reply 200 '''']\<rparr>"
      command_task "[]"
      "\<lparr>sent = [available_request example_client,
                start_request example_client example_id ''runner-1''], ext = []\<rparr>"]
    FetchTask_first_entry [of example_client "example_env (Inr ''runner-1'')"
      "example_world [reply 200 command_task_json, reply 409 ''claimed'']" _
      "\<lparr>sent = [available_request example_client], ext = [reply 409 ''claimed'']\<rparr>"
      command_task "[]"
      "\<lparr>sent = [available_request example_client,
                start_request example_client example_id ''runner-1''], ext = []\<rparr>"
      "''task unavailable: claimed''"]
    FetchTask_first_entry [of example_client "example_env (Inr ''runner-1'')"
      "example_world [reply 500 '''']" "''unexpected status code: 500''"
      "\<lparr>sent = [available_request example_client], ext = []\<rparr>"]
  by (simp add: FetchTask_def GetAvailableTasks_def StartTask_def http_Do_def
      example_client_def NewHTTPTaskClient_def
      example_env_def example_world_def example_id_def scripted_def reply_def example_Parse_def
      example_String_def example_Marshal_def example_Decode_tasks_def example_Decode_error_def
      command_task_json_def command_task_def zero_Task_def fmt_d_500)

text \<open>
  The claim C4 as the specification states it (a list that is not empty has its
  first entry claimed) fails where the first entry is a nil pointer, as the decoder
  gives for the reply \<open>[null]\<close>: the list has one entry, no start request is sent,
  and the call panics instead of returning.
\<close>

theorem FetchTask_nil_entry_panics:
  "GetAvailableTasks example_client (example_env (Inr ''runner-1''))
       (example_world [reply 200 ''[null]''])
     = (OK [None], \<lparr>sent = [available_request example_client], ext = []\<rparr>)
   \<and> FetchTask example_client (example_env (Inr ''runner-1''))
       (example_world [reply 200 ''[null]''])
     = (Panic nil_dereference, \<lparr>sent = [available_request example_client], ext = []\<rparr>)"
  by (simp add: FetchTask_def GetAvailableTasks_def http_Do_def
      example_client_def NewHTTPTaskClient_def
      example_env_def example_world_def example_id_def scripted_def reply_def example_Parse_def
      example_String_def example_Marshal_def example_Decode_tasks_def example_Decode_error_def)

text \<open>
  Claim C5. \<open>StartTask(id)\<close> fails when the device identity cannot be resolved,
  sending nothing. Otherwise, once the server has answered, status 200 is success,
  409 the "task unavailable" error, 400 the "bad request" error, 404 the "task not
  found" error, and any other status the "unexpected status code" error that carries
  the status and the body of the answer. Success and these four errors are pairwise
  different, whatever the bodies and the status.
\<close>

theorem StartTask_status_mapping:
  "(VerifyDeviceID E (ext w) = Inl e \<longrightarrow>
      StartTask c E taskID w = (Err (''failed to get device ID: '' @ e), w))
   \<and> (VerifyDeviceID E (ext w) = Inr d
       \<and> http_NewRequest E ''POST'' (start_url c taskID) = None
       \<and> http_RoundTrip E (ext w) (start_request c taskID d) = (Inr resp, x') \<longrightarrow>
      StartTask c E taskID w =
        ((if StatusCode resp = 200 then OK ()
          else if StatusCode resp = 409 then Err (''task unavailable: '' @ Body resp)
          else if StatusCode resp = 400 then Err (''bad request: '' @ Body resp)
          else if StatusCode resp = 404 then Err ''task not found''
          else Err (''unexpected status code: '' @ fmt_d (StatusCode resp)
                     @ '', body: '' @ Body resp)),
         w\<lparr>sent := sent w @ [start_request c taskID d], ext := x'\<rparr>))
   \<and> distinct [OK (), Err (''task unavailable: '' @ b1), Err (''bad request: '' @ b2),
               Err ''task not found'',
               Err (''unexpected status code: '' @ fmt_d n @ '', body: '' @ b3)]"
  using StartTask_device_failure [of E w e c taskID]
    StartTask_response [of E w d c taskID resp x']
    StartTask_outcomes_distinct [of b1 b2 n b3]
  by blast

theorem StartTask_status_mapping_witness:
  "StartTask example_client (example_env (Inl ''no machine id'')) example_id
       (example_world [reply 200 ''''])
     = (Err ''failed to get device ID: no machine id'', example_world [reply 200 ''''])
   \<and> StartTask example_client (example_env (Inr ''runner-1'')) example_id
       (example_world [reply 200 ''''])
     = (OK (), \<lparr>sent = [start_request example_client example_id ''runner-1''], ext = []\<rparr>)
   \<and> StartTask example_client (example_env (Inr ''runner-1'')) example_id
       (example_world [reply 409 ''claimed''])
     = (Err ''task unavailable: claimed'',
        \<lparr>sent = [start_request example_client example_id ''runner-1''], ext = []\<rparr>)
   \<and> StartTask example_client (example_env (Inr ''runner-1'')) example_id
       (example_world [reply 400 ''no id''])
     = (Err ''bad request: no id'',
        \<lparr>sent = [start_request example_client example_id ''runner-1''], ext = []\<rparr>)
   \<and> StartTask example_client (example_env (Inr ''runner-1'')) example_id
       (example_world [reply 404 ''gone''])
     = (Err ''task not found'',
        \<lparr>sent = [start_request example_client example_id ''runner-1''], ext = []\<rparr>)
   \<and> StartTask example_client (example_env (Inr ''runner-1'')) example_id
       (example_world [reply 500 ''boom''])
     = (Err ''unexpected status code: 500, body: boom'',
        \<lparr>sent = [start_request example_client example_id ''runner-1''], ext = []\<rparr>)"
  using
    StartTask_status_mapping [of "example_env (Inl ''no machine id'')"
      "example_world [reply 200 '''']" "''no machine id''" example_client example_id]
    StartTask_status_mapping [of "example_env (Inr ''runner-1'')"
      "example_world [reply 200 '''']" _ example_client example_id "''runner-1''"
      "\<lparr>StatusCode = 200, Body = ''''\<rparr>" "[]"]
    StartTask_status_mapping [of "example_env (Inr ''runner-1'')"
      "example_world [reply 409 ''claimed'']" _ example_client example_id "''runner-1''"
      "\<lparr>StatusCode = 409, Body = ''claimed''\<rparr>" "[]"]
    StartTask_status_mapping [of "example_env (Inr ''runner-1'')"
      "example_world [reply 400 ''no id'']" _ example_client example_id "''runner-1''"
      "\<lparr>StatusCode = 400, Body = ''no id''\<rparr>" "[]"]
    StartTask_status_mapping [of "example_env (Inr ''runner-1'')"
      "example_world [reply 404 ''gone'']" _ example_client example_id "''runner-1''"
      "\<lparr>StatusCode = 404, Body = ''gone''\<rparr>" "[]"]
    StartTask_status_mapping [of "example_env (Inr ''runner-1'')"
      "example_world [reply 500 ''boom'']" _ example_client example_id "''runner-1''"
      "\<lparr>StatusCode = 500, Body = ''boom''\<rparr>" "[]"]
  by (simp add: example_env_def example_world_def scripted_def reply_def fmt_d_500)

text \<open>
  Claim C6. For every task id, \<open>UpdateTaskStatus(id, running, result)\<close> is
  \<open>StartTask(id)\<close>: it returns what \<open>StartTask\<close> returns and leaves the world, the
  requests sent included, as \<open>StartTask\<close> leaves it, whatever the result argument,
  which it does not touch.
\<close>

theorem UpdateTaskStatus_running:
  "UpdateTaskStatus c E taskID TaskStatusRunning result w
     = (fst (StartTask c E taskID w), result, snd (StartTask c E taskID w))"
  by (simp add: UpdateTaskStatus_def split: prod.split)

theorem UpdateTaskStatus_running_witness:
  "UpdateTaskStatus example_client (example_env (Inr ''runner-1'')) example_id
       TaskStatusRunning (Some blank_result) (example_world [reply 409 ''claimed''])
     = (Err ''task unavailable: claimed'', Some blank_result,
        \<lparr>sent = [start_request example_client example_id ''runner-1''], ext = []\<rparr>)
   \<and> StartTask example_client (example_env (Inr ''runner-1'')) example_id
       (example_world [reply 409 ''claimed''])
     = (Err ''task unavailable: claimed'',
        \<lparr>sent = [start_request example_client example_id ''runner-1''], ext = []\<rparr>)"
  using UpdateTaskStatus_running [of example_client "example_env (Inr ''runner-1'')"
      example_id "Some blank_result" "example_world [reply 409 ''claimed'']"]
  by (simp add: StartTask_def http_Do_def example_env_def example_world_def scripted_def
      reply_def)

text \<open>
  Claim C7. \<open>SaveTaskResult(id, result)\<close> fills each absent default before it
  serializes the result: once the device identity is resolved (and the path id
  parses, where it is needed), a nil-UUID \<open>TaskID\<close> becomes the UUID of the path
  id, a zero \<open>CreatedAt\<close> becomes the time of the call, an empty \<open>RunnerAddress\<close>
  becomes the device identity, and a field that is already set stays as given. It is
  this filled result that \<open>json.Marshal\<close> is given: its serialization is the body of
  the request sent, and its marshalling error is the one returned.
\<close>

theorem SaveTaskResult_fills_defaults:
  assumes "VerifyDeviceID E (ext w) = Inr d"
    and "TaskID r = uuid_Nil \<longrightarrow> uuid_Parse E taskID = Inr u"
  shows "\<exists>r'. fst (snd (SaveTaskResult c E taskID (Some r) w)) = Some r'
      \<and> TaskID r' = (if TaskID r = uuid_Nil then u else TaskID r)
      \<and> CreatedAt r' = (if IsZero (CreatedAt r) then time_Now E (ext w) else CreatedAt r)
      \<and> RunnerAddress r' = (if RunnerAddress r = '''' then d else RunnerAddress r)
      \<and> Payload r' = Payload r
      \<and> (\<forall>e. json_Marshal E r' = Inl e \<longrightarrow>
             SaveTaskResult c E taskID (Some r) w
               = (Err (''failed to marshal result: '' @ e), Some r', w))
      \<and> (\<forall>b. json_Marshal E r' = Inr b
               \<and> http_NewRequest E ''POST'' (result_url c taskID) = None \<longrightarrow>
             sent (snd (snd (SaveTaskResult c E taskID (Some r) w)))
               = sent w @ [result_request c taskID d b])"
proof -
  define r' where "r' = r\<lparr>TaskID := (if TaskID r = uuid_Nil then u else TaskID r),
      CreatedAt := (if IsZero (CreatedAt r) then time_Now E (ext w) else CreatedAt r),
      RunnerAddress := (if RunnerAddress r = [] then d else RunnerAddress r)\<rparr>"
  have "fst (snd (SaveTaskResult c E taskID (Some r) w)) = Some r'"
    by (rule SaveTaskResult_filled_result [OF assms r'_def])
  moreover have "TaskID r' = (if TaskID r = uuid_Nil then u else TaskID r)"
    "CreatedAt r' = (if IsZero (CreatedAt r) then time_Now E (ext w) else CreatedAt r)"
    "RunnerAddress r' = (if RunnerAddress r = '''' then d else RunnerAddress r)"
    "Payload r' = Payload r"
    by (simp_all add: r'_def)
  moreover have "\<forall>e. json_Marshal E r' = Inl e \<longrightarrow>
      SaveTaskResult c E taskID (Some r) w
        = (Err (''failed to marshal result: '' @ e), Some r', w)"
    using SaveTaskResult_filled_marshal_error [OF assms r'_def] by blast
  moreover have "\<forall>b. json_Marshal E r' = Inr b
        \<and> http_NewRequest E ''POST'' (result_url c taskID) = None \<longrightarrow>
      sent (snd (snd (SaveTaskResult c E taskID (Some r) w)))
        = sent w @ [result_request c taskID d b]"
    using SaveTaskResult_filled_sent [OF assms r'_def] by blast
  ultimately show ?thesis by blast
qed

theorem SaveTaskResult_fills_defaults_witness:
  "SaveTaskResult example_client (example_env (Inr ''runner-1'')) example_id
       (Some blank_result) (example_world [reply 200 ''''])
     = (OK (),
        Some \<lparr>TaskID = 1, RunnerAddress = ''runner-1'', CreatedAt = 63900000000,
              Payload = ''exit 0''\<rparr>,
        \<lparr>sent = [result_request example_client example_id ''runner-1''
                    (example_id @ '';runner-1;'' @ fmt_d 63900000000 @ '';exit 0'')],
         ext = []\<rparr>)
   \<and> SaveTaskResult example_client (example_env (Inr ''runner-1'')) ''not-a-uuid''
       (Some filled_result) (example_world [reply 200 ''''])
     = (OK (), Some filled_result,
        \<lparr>sent = [result_request example_client ''not-a-uuid'' ''runner-1''
                    (''00000000-0000-0000-0000-000000000002;0xabc;'' @ fmt_d 63800000000
                     @ '';exit 1'')],
         ext = []\<rparr>)"
  using
    SaveTaskResult_fills_defaults [of "example_env (Inr ''runner-1'')"
      "example_world [reply 200 '''']" "''runner-1''" blank_result example_id 1
      example_client]
    SaveTaskResult_fills_defaults [of "example_env (Inr ''runner-1'')"
      "example_world [reply 200 '''']" "''runner-1''" filled_result "''not-a-uuid''" 0
      example_client]
  by (simp add: SaveTaskResult_def MustParse_def http_Do_def uuid_Nil_def IsZero_def
      example_client_def NewHTTPTaskClient_def
      example_env_def example_world_def example_id_def scripted_def reply_def example_Parse_def
      example_String_def example_Marshal_def example_Decode_tasks_def example_Decode_error_def
      blank_result_def filled_result_def)

text \<open>
  Claim C9, as the code has it. \<open>SaveTaskResult(id, result)\<close> called with a result
  whose \<open>TaskID\<close> is the nil UUID and an id that is not a valid UUID panics (in
  \<open>uuid.MustParse\<close>, which the call reaches once the device identity is resolved)
  instead of returning an error, with the result untouched and nothing sent. The
  error return value only covers the failures of the device identity, of marshalling,
  of the creation of the request, of the transport, and of a status other than 200
  (with the server's message or without): none is about the id.
\<close>

theorem SaveTaskResult_MustParse:
  "(VerifyDeviceID E (ext w) = Inr d \<and> TaskID r = uuid_Nil \<and> uuid_Parse E taskID = Inl e
      \<longrightarrow> SaveTaskResult c E taskID (Some r) w
           = (Panic (''uuid: Parse('' @ taskID @ ''): '' @ e), Some r, w))
   \<and> (VerifyDeviceID E (ext w) = Inl e'
      \<longrightarrow> SaveTaskResult c E taskID result w
           = (Err (''failed to get device ID: '' @ e'), result, w))
   \<and> (fst (SaveTaskResult c E taskID result w) = Err m
      \<longrightarrow> (\<exists>e. m = ''failed to get device ID: '' @ e)
        \<or> (\<exists>e. m = ''failed to marshal result: '' @ e)
        \<or> (\<exists>e. m = ''failed to create request: '' @ e)
        \<or> (\<exists>e. m = ''HTTP POST failed for '' @ result_url c taskID @ '': '' @ e)
        \<or> (\<exists>e. e \<noteq> [] \<and> m = ''server error: '' @ e)
        \<or> (\<exists>n. n \<noteq> 200 \<and> m = ''unexpected status code: '' @ fmt_d n))"
  using SaveTaskResult_MustParse_panic [of E w d r taskID e c]
    SaveTaskResult_device_failure [of E w e' c taskID result]
    SaveTaskResult_errors [of c E taskID result w m]
  by blast

theorem SaveTaskResult_MustParse_witness:
  "TaskID blank_result = uuid_Nil
   \<and> uuid_Parse (example_env (Inr ''runner-1'')) ''not-a-uuid''
       = Inl (''invalid UUID length: '' @ fmt_d 10)
   \<and> SaveTaskResult example_client (example_env (Inr ''runner-1'')) ''not-a-uuid''
       (Some blank_result) (example_world [reply 200 ''''])
     = (Panic (''uuid: Parse(not-a-uuid): invalid UUID length: '' @ fmt_d 10),
        Some blank_result, example_world [reply 200 ''''])
   \<and> SaveTaskResult example_client (example_env (Inr ''runner-1'')) example_id
       (Some blank_result) (example_world [reply 500 ''''])
     = (Err ''unexpected status code: 500'',
        Some \<lparr>TaskID = 1, RunnerAddress = ''runner-1'', CreatedAt = 63900000000,
              Payload = ''exit 0''\<rparr>,
        \<lparr>sent = [result_request example_client example_id ''runner-1''
                    (example_id @ '';runner-1;'' @ fmt_d 63900000000 @ '';exit 0'')],
         ext = []\<rparr>)
   \<and> SaveTaskResult example_client (example_env (Inl ''no machine id'')) example_id
       (Some blank_result) (example_world [reply 200 ''''])
     = (Err ''failed to get device ID: no machine id'', Some blank_result,
        example_world [reply 200 ''''])"
  using
    SaveTaskResult_MustParse [of "example_env (Inr ''runner-1'')"
      "example_world [reply 200 '''']" "''runner-1''" blank_result "''not-a-uuid''"
      "''invalid UUID length: '' @ fmt_d 10" example_client]
    SaveTaskResult_MustParse [of "example_env (Inl ''no machine id'')"
      "example_world [reply 200 '''']" _ _ example_id _ example_client "''no machine id''"
      "Some blank_result"]
    SaveTaskResult_MustParse [of "example_env (Inr ''runner-1'')"
      "example_world [reply 500 '''']" _ _ example_id _ example_client _
      "Some blank_result" "''unexpected status code: 500''"]
  by (simp add: SaveTaskResult_def MustParse_def http_Do_def uuid_Nil_def IsZero_def
      example_client_def NewHTTPTaskClient_def
      example_env_def example_world_def example_id_def scripted_def reply_def example_Parse_def
      example_String_def example_Marshal_def example_Decode_tasks_def example_Decode_error_def
      blank_result_def fmt_d_500)

text \<open>
  The claim C9 as the specification states it (a returned error is a failure of the
  device identity, of marshalling, of the transport or of the status) fails where
  \<open>http.NewRequest\<close> refuses the URL: the device identity is resolved, the result
  is marshalled, no request is handed to the transport and no status is received,
  and the call returns the error of the creation of the request.
\<close>

theorem SaveTaskResult_request_creation_error:
  \<open>VerifyDeviceID parsing_env (ext (example_world [reply 200 ''''])) = Inr ''runner-1''
   \<and> json_Marshal parsing_env filled_result
       = Inr (''00000000-0000-0000-0000-000000000002;0xabc;'' @ fmt_d 63800000000
              @ '';exit 1'')
   \<and> result_url example_client ''%zz''
       = ''http://coordinator:8080/api/v1/runners/tasks/%zz/result''
   \<and> SaveTaskResult example_client parsing_env ''%zz'' (Some filled_result)
       (example_world [reply 200 ''''])
     = (Err ''failed to create request: parse "http://coordinator:8080/api/v1/runners/tasks/%zz/result": invalid URL escape "%zz"'',
        Some filled_result, example_world [reply 200 ''''])\<close>
  by (simp add: SaveTaskResult_def MustParse_def http_Do_def uuid_Nil_def IsZero_def
      result_url_def api_root_def TrimSuffix_def HasSuffix_def
      parsing_env_def example_NewRequest_def example_client_def NewHTTPTaskClient_def
      example_env_def example_world_def example_String_def example_Marshal_def
      filled_result_def)

text \<open>
  Claim C10. \<open>SaveTaskResult\<close> fills the defaults in the caller's result, not in a
  copy: whatever the call returns, the result the caller holds afterwards differs
  from the one passed in at most in \<open>TaskID\<close>, \<open>CreatedAt\<close> and \<open>RunnerAddress\<close>,
  each changed only from its zero value, and every other field is as before; after a
  successful call it is the serialization of that very result that was sent. If the
  device identity cannot be resolved, the call returns an error with the result and
  the world as they were: nothing is sent.
\<close>

theorem SaveTaskResult_frame:
  "(\<exists>r'. fst (snd (SaveTaskResult c E taskID (Some r) w)) = Some r'
       \<and> Payload r' = Payload r
       \<and> (TaskID r' = TaskID r \<or> TaskID r = uuid_Nil)
       \<and> (CreatedAt r' = CreatedAt r \<or> IsZero (CreatedAt r))
       \<and> (RunnerAddress r' = RunnerAddress r \<or> RunnerAddress r = '''')
       \<and> (fst (SaveTaskResult c E taskID (Some r) w) = OK () \<longrightarrow>
            (\<exists>d b. json_Marshal E r' = Inr b
               \<and> sent (snd (snd (SaveTaskResult c E taskID (Some r) w)))
                   = sent w @ [result_request c taskID d b])))
   \<and> (VerifyDeviceID E (ext w) = Inl e \<longrightarrow>
        SaveTaskResult c E taskID result w
          = (Err (''failed to get device ID: '' @ e), result, w))"
proof -
  from SaveTaskResult_frame_aux [of c E taskID r w]
  obtain r' where r': "fst (snd (SaveTaskResult c E taskID (Some r) w)) = Some r'"
    and frame: "Payload r' = Payload r" "TaskID r' = TaskID r \<or> TaskID r = uuid_Nil"
      "CreatedAt r' = CreatedAt r \<or> IsZero (CreatedAt r)"
      "RunnerAddress r' = RunnerAddress r \<or> RunnerAddress r = ''''"
    by blast
  have "\<exists>d b. json_Marshal E r' = Inr b
          \<and> sent (snd (snd (SaveTaskResult c E taskID (Some r) w)))
              = sent w @ [result_request c taskID d b]"
    if "fst (SaveTaskResult c E taskID (Some r) w) = OK ()"
    using SaveTaskResult_OK [OF that] r' by auto
  then show ?thesis
    using r' frame SaveTaskResult_device_failure [of E w e c taskID result] by blast
qed

theorem SaveTaskResult_frame_witness:
  "SaveTaskResult example_client (example_env (Inr ''runner-1'')) example_id
       (Some (filled_result\<lparr>CreatedAt := 0\<rparr>)) (example_world [reply 200 ''''])
     = (OK (), Some (filled_result\<lparr>CreatedAt := 63900000000\<rparr>),
        \<lparr>sent = [result_request example_client example_id ''runner-1''
                    (''00000000-0000-0000-0000-000000000002;0xabc;'' @ fmt_d 63900000000
                     @ '';exit 1'')],
         ext = []\<rparr>)
   \<and> SaveTaskResult example_client (example_env (Inl ''no machine id'')) example_id
       (Some blank_result) (example_world [reply 200 ''''])
     = (Err ''failed to get device ID: no machine id'', Some blank_result,
        example_world [reply 200 ''''])"
  using
    SaveTaskResult_frame [of example_client "example_env (Inr ''runner-1'')" example_id
      "filled_result\<lparr>CreatedAt := 0\<rparr>" "example_world [reply 200 '''']"]
    SaveTaskResult_frame [of example_client "example_env (Inl ''no machine id'')" example_id
      blank_result "example_world [reply 200 '''']" "''no machine id''" "Some blank_result"]
  by (simp add: SaveTaskResult_def MustParse_def http_Do_def uuid_Nil_def IsZero_def
      example_client_def NewHTTPTaskClient_def
      example_env_def example_world_def example_id_def scripted_def reply_def example_Parse_def
      example_String_def example_Marshal_def example_Decode_tasks_def example_Decode_error_def
      blank_result_def filled_result_def)

end
